theory Spec2Isabelle
  imports Complex_Main "HOL-Library.Option_ord" "HOL-Library.Char_ord" "HOL-Library.List_Lexorder"
    "HOL-Library.AList"
begin

section \<open>Sizes, errors and the external process\<close>

text \<open>
  File sizes are byte counts (\<open>st_size\<close>), natural numbers. The scripts turn them into
  megabytes with \<open>size / (1024 * 1024)\<close>, a Python true division. The quotient is
  modelled as a rational: dividing an integer by a power of two only changes the exponent
  of the float, so every comparison of the quotient with an integer constant made by the
  scripts has the same result on the rational.
\<close>

definition file_size_mb :: "nat \<Rightarrow> rat" where
  "file_size_mb st_size = of_nat st_size / (1024 * 1024)"

text \<open>The Python exceptions that the modelled code can raise.\<close>

datatype py_error =
    ZeroDivisionError
  | TypeError
  | OSError string
  | PyException string

text \<open>Python's \<open>a / b\<close> raises on a zero divisor.\<close>

definition py_truediv :: "rat \<Rightarrow> rat \<Rightarrow> py_error + rat" where
  "py_truediv a b = (if b = 0 then Inl ZeroDivisionError else Inr (a / b))"

section \<open>backend/app.py: the resource policy of the conversion endpoints\<close>

text \<open>
  \<open>convert_ifc\<close> builds the command line of the Node.js worker and picks the timeout
  from the size of the uploaded file. The flags that precede the script on the command
  line are kept as a list, in the order of the source.
\<close>

datatype node_flag = MaxOldSpaceSize nat | MaxSemiSpaceSize nat | ExposeGc

record policy =
  node_flags :: "node_flag list"
  timeout_seconds :: nat

definition convert_ifc_policy :: "nat \<Rightarrow> policy" where
  "convert_ifc_policy temp_file_size =
     (let mb = file_size_mb temp_file_size in
      if mb > 50 then
        \<lparr>node_flags = [MaxOldSpaceSize 8192, MaxSemiSpaceSize 1024, ExposeGc],
         timeout_seconds = 3600\<rparr>
      else if mb > 20 then
        \<lparr>node_flags = [MaxOldSpaceSize 4096, ExposeGc], timeout_seconds = 1800\<rparr>
      else
        \<lparr>node_flags = [], timeout_seconds = 600\<rparr>)"

text \<open>
  The memory budget of a command line is the value of its \<open>--max-old-space-size\<close> flag,
  \<open>None\<close> when the flag is absent and Node.js runs with its default heap. The source
  calls the flagged tiers a "moderate memory boost" and a "memory optimization" over the
  default, so \<open>None\<close> is the least budget, as in the order on \<open>option\<close>.
\<close>

fun memoryBudget :: "node_flag list \<Rightarrow> nat option" where
  "memoryBudget [] = None"
| "memoryBudget (MaxOldSpaceSize n # fs) = Some n"
| "memoryBudget (f # fs) = memoryBudget fs"

definition tier :: "nat \<Rightarrow> nat \<times> nat option" where
  "tier sz = (timeout_seconds (convert_ifc_policy sz), memoryBudget (node_flags (convert_ifc_policy sz)))"

text \<open>
  \<open>convert_ifc_subprocess\<close> runs the external Python converter with a fixed command line
  and chooses only the timeout.
\<close>

definition convert_ifc_subprocess_timeout :: "nat \<Rightarrow> nat" where
  "convert_ifc_subprocess_timeout st_size =
     (let mb = file_size_mb st_size in
      if mb > 100 then 3600
      else if mb > 50 then 1800
      else if mb > 10 then 1200
      else 600)"

section \<open>Compression statistics\<close>

text \<open>
  Both \<open>_process_successful_conversion\<close> and \<open>_fallback_mock_conversion\<close> compute
  \<open>((input_size_mb - output_size_mb) / input_size_mb) * 100 if input_size_mb > 0 else 0\<close>.
\<close>

definition compression_ratio :: "rat \<Rightarrow> rat \<Rightarrow> py_error + rat" where
  "compression_ratio input_size_mb output_size_mb =
     (if input_size_mb > 0 then
        (case py_truediv (input_size_mb - output_size_mb) input_size_mb of
           Inl e \<Rightarrow> Inl e
         | Inr q \<Rightarrow> Inr (q * 100))
      else Inr 0)"

section \<open>The project directory\<close>

text \<open>
  The orchestrating script reads and writes one directory: \<open>source_dir\<close> and
  \<open>target_dir\<close> are both \<open>Path(Path_F1_CO)\<close>. The directory is an association list
  from file names to files, in the order in which the operating system lists them. A file
  has its bytes and a flag telling whether \<open>open(..., 'rb')\<close> succeeds (a directory
  named \<open>x.ifc\<close> or a file without read permission is listed and has a size, but cannot
  be read). \<open>write_denied\<close> lists the names for which \<open>open(..., 'wb')\<close> raises.
\<close>

type_synonym bytes = "char list"

record fobj =
  content :: bytes
  readable :: bool

record fsys =
  files :: "(string \<times> fobj) list"
  write_denied :: "string list"

definition path_exists :: "fsys \<Rightarrow> string \<Rightarrow> bool" where
  "path_exists d name = (map_of (files d) name \<noteq> None)"

definition st_size :: "fsys \<Rightarrow> string \<Rightarrow> py_error + nat" where
  "st_size d name =
     (case map_of (files d) name of
        None \<Rightarrow> Inl (OSError name)
      | Some f \<Rightarrow> Inr (length (content f)))"

definition read_bytes :: "fsys \<Rightarrow> string \<Rightarrow> py_error + bytes" where
  "read_bytes d name =
     (case map_of (files d) name of
        None \<Rightarrow> Inl (OSError name)
      | Some f \<Rightarrow> if readable f then Inr (content f) else Inl (OSError name))"

definition write_bytes :: "fsys \<Rightarrow> string \<Rightarrow> bytes \<Rightarrow> py_error + fsys" where
  "write_bytes d name data =
     (if name \<in> set (write_denied d) then Inl (OSError name)
      else
        let r = (case map_of (files d) name of None \<Rightarrow> True | Some f \<Rightarrow> readable f)
        in Inr (d\<lparr>files := AList.update name \<lparr>content = data, readable = r\<rparr> (files d)\<rparr>))"

text \<open>\<open>str(e)\<close> of a caught exception.\<close>

fun str_of_error :: "py_error \<Rightarrow> string" where
  "str_of_error ZeroDivisionError = ''division by zero''"
| "str_of_error TypeError = ''unsupported operand type(s)''"
| "str_of_error (OSError m) = m"
| "str_of_error (PyException m) = m"

text \<open>
  \<open>Path.stem\<close>: the name without its last suffix. The suffix starts at the last dot,
  unless that dot is the first or the last character of the name.
\<close>

definition rfind_dot :: "string \<Rightarrow> nat option" where
  "rfind_dot name =
     (if CHR ''.'' \<in> set name
      then Some (length name - 1 - length (takeWhile (\<lambda>c. c \<noteq> CHR ''.'') (rev name)))
      else None)"

definition stem :: "string \<Rightarrow> string" where
  "stem name =
     (case rfind_dot name of
        None \<Rightarrow> name
      | Some i \<Rightarrow> if 0 < i \<and> i < length name - 1 then take i name else name)"

text \<open>\<open>glob('*' + suffix)\<close> on a POSIX file system: the name ends with the suffix.\<close>

definition ends_with :: "string \<Rightarrow> string \<Rightarrow> bool" where
  "ends_with suf n = (length suf \<le> length n \<and> drop (length n - length suf) n = suf)"

definition glob_star :: "string \<Rightarrow> string list \<Rightarrow> string list" where
  "glob_star suf names = filter (ends_with suf) names"

section \<open>FragmentsBYTEAHandler: a sink\<close>

text \<open>
  The conversion metadata dictionary. \<open>conversion_timestamp\<close> (\<open>datetime.now()\<close>) is
  left out; \<open>metadata_note\<close> is the \<open>note\<close> key, that only the fallback writes.
\<close>

record conversion_metadata =
  conversion_time_seconds :: rat
  input_size_mb :: rat
  output_size_mb :: rat
  compression_ratio_percent :: rat
  ifc_source_path :: string
  converter_version :: string
  project_name :: string
  metadata_note :: "string option"

text \<open>A row of \<open>t5_va.F1600_CO_Fragments_bytea\<close>.\<close>

record row =
  row_id :: nat
  filename :: string
  file_hash :: string
  fragment_data :: bytes
  file_size_bytes :: nat
  ifc_source_file :: string
  row_metadata :: conversion_metadata

text \<open>
  A sink is a database table behind a connection that may fail. Every
  \<open>with self.get_connection()\<close> block is one interaction with the server; when it fails
  (the connection or the statement raises) nothing is committed. \<open>db_script\<close> holds the
  outcomes of the coming interactions, in order; a server with an empty script answers.
  \<open>store_calls\<close> is a trace of the calls of \<open>store_fragment\<close> that the sink has
  received, kept to state which stores were attempted.
\<close>

record sink =
  db_script :: "bool list"
  db_rows :: "row list"
  db_serial :: nat
  store_calls :: "string list"

definition get_connection :: "sink \<Rightarrow> bool \<times> sink" where
  "get_connection s =
     (case db_script s of
        [] \<Rightarrow> (True, s)
      | b # bs \<Rightarrow> (b, s\<lparr>db_script := bs\<rparr>))"

text \<open>The next interaction with the server succeeds.\<close>

definition answers :: "sink \<Rightarrow> bool" where
  "answers s = fst (get_connection s)"

text \<open>
  \<open>store_fragment\<close> returns a Python \<open>bool\<close> from three places: \<open>True\<close> after the
  "already exists" warning, \<open>True\<close> after the insert, \<open>False\<close> in the exception
  handler. The outcome names the place; \<open>put_ok\<close> is the returned \<open>bool\<close>.
\<close>

datatype put_outcome = Stored nat | AlreadyPresent | PutFailed

fun put_ok :: "put_outcome \<Rightarrow> bool" where
  "put_ok (Stored i) = True"
| "put_ok AlreadyPresent = True"
| "put_ok PutFailed = False"

definition store_fragment ::
  "(bytes \<Rightarrow> string) \<Rightarrow> fsys \<Rightarrow> sink \<Rightarrow> string \<Rightarrow> string \<Rightarrow> conversion_metadata
     \<Rightarrow> put_outcome \<times> sink" where
  "store_fragment calculate_file_hash d s0 fragment_file ifc_source metadata =
     (let s = s0\<lparr>store_calls := store_calls s0 @ [fragment_file]\<rparr> in
      case read_bytes d fragment_file of
        Inl e \<Rightarrow> (PutFailed, s)
      | Inr hashed \<Rightarrow>
          let h = calculate_file_hash hashed;
              file_size = length hashed;
              (ok1, s1) = get_connection s
          in if \<not> ok1 then (PutFailed, s1)
             else if h \<in> set (map file_hash (db_rows s1)) then (AlreadyPresent, s1)
             else
               (case read_bytes d fragment_file of
                  Inl e \<Rightarrow> (PutFailed, s1)
                | Inr data \<Rightarrow>
                    let (ok2, s2) = get_connection s1
                    in if \<not> ok2 then (PutFailed, s2)
                       else
                         (Stored (db_serial s2),
                          s2\<lparr>db_rows := db_rows s2 @
                                [\<lparr>row_id = db_serial s2, filename = fragment_file,
                                  file_hash = h, fragment_data = data,
                                  file_size_bytes = file_size, ifc_source_file = ifc_source,
                                  row_metadata = metadata\<rparr>],
                             db_serial := Suc (db_serial s2)\<rparr>)))"

text \<open>
  \<open>get_storage_stats\<close>: the aggregate row of the table, or the empty dictionary
  (\<open>None\<close>) when the query fails. \<open>SUM\<close> over no rows is \<open>NULL\<close>, Python's \<open>None\<close>.
\<close>

record storage_stats =
  total_fragments :: nat
  total_size_bytes :: "nat option"

definition get_storage_stats :: "sink \<Rightarrow> storage_stats option \<times> sink" where
  "get_storage_stats s =
     (let (ok, s1) = get_connection s
      in if \<not> ok then (None, s1)
         else
           (Some \<lparr>total_fragments = length (db_rows s1),
                  total_size_bytes =
                    (if db_rows s1 = [] then None
                     else Some (sum_list (map file_size_bytes (db_rows s1))))\<rparr>,
            s1))"

section \<open>ProjectIfcConverter: the orchestrator\<close>

text \<open>
  \<open>subprocess.run\<close> either returns the exit status of the child with its captured
  standard output and standard error, raises \<open>TimeoutExpired\<close> after killing it, or
  raises while launching it.
\<close>

datatype run_outcome = Exited int string string | TimeoutExpired | LaunchError string

datatype status = Success | Failed | Skipped

text \<open>
  The result dictionary of one item. \<open>result_stats\<close> is its \<open>stats\<close> key (input size,
  output size and compression ratio), present on success only.
\<close>

record result =
  result_file :: string
  status :: status
  message :: string
  conversion_time :: rat
  db_stored :: bool
  db_stored_secondary :: bool
  result_stats :: "(rat \<times> rat \<times> rat) option"

text \<open>
  \<open>self.stats\<close>. The counters of the dictionary carry the prefix \<open>stats_\<close> where the
  result dictionary has a key of the same name. The timestamps of the run are left out.
\<close>

record statistics =
  total_files :: nat
  successful :: nat
  failed :: nat
  skipped :: nat
  stats_db_stored :: nat
  stats_db_failed :: nat
  stats_db_stored_secondary :: nat
  stats_db_failed_secondary :: nat
  results :: "result list"

text \<open>The lines of the log that the properties below refer to.\<close>

datatype db_mark = MarkStored | MarkFailed | MarkNotAttempted | MarkNone

datatype log_event =
    StoringPrimary string
  | StoringSecondary string
  | SkippedSecondary string
  | WorkerTimedOut string
  | WorkerFailed string
  | MockFailed string
  | NoFilesFound
  | ResultLine string status db_mark db_mark
  | ReportSaved
  | CouldNotSaveReport
  | EnvironmentInvalid
  | UnexpectedError py_error

text \<open>
  The converter object together with the world it acts on: the two handlers (a handler
  that is not enabled is never used), the statistics, the project directory, the log and
  the report files written so far.
\<close>

record converter =
  database_enabled :: bool
  secondary_database_enabled :: bool
  db_handler :: sink
  db_handler_secondary :: sink
  stats :: statistics
  dir :: fsys
  log :: "log_event list"
  reports :: "statistics list"

text \<open>
  What the run is given from outside: SHA-256 (\<open>hashlib\<close>), the portable converter run
  as a child process on one file of the directory (it may change the directory and ends in
  one of the outcomes of \<open>subprocess.run\<close>), the elapsed time measured for an item, the
  project name, whether the report file can be written, and the three paths checked by
  \<open>validate_environment\<close>.
\<close>

record env =
  sha256 :: "bytes \<Rightarrow> string"
  portable_converter :: "string \<Rightarrow> fsys \<Rightarrow> run_outcome \<times> fsys"
  elapsed :: "string \<Rightarrow> rat"
  PjName :: string
  report_writable :: bool
  converter_package_dir_exists :: bool
  portable_converter_exists :: bool
  source_dir_exists :: bool

definition log_event :: "log_event \<Rightarrow> converter \<Rightarrow> converter" where
  "log_event e c = c\<lparr>log := log c @ [e]\<rparr>"

definition store_fragment_and_return_result ::
  "env \<Rightarrow> converter \<Rightarrow> string \<Rightarrow> string \<Rightarrow> rat \<Rightarrow> conversion_metadata \<Rightarrow> result \<times> converter" where
  "store_fragment_and_return_result e c ifc_file output_file conv_time metadata =
     (let (db_stored_primary, c1) =
            (if database_enabled c then
               (let c0 = log_event (StoringPrimary output_file) c;
                    (r, s) = store_fragment (sha256 e) (dir c0) (db_handler c0) output_file ifc_file metadata;
                    st = stats c0
                in if put_ok r
                   then (True, c0\<lparr>db_handler := s, stats := st\<lparr>stats_db_stored := stats_db_stored st + 1\<rparr>\<rparr>)
                   else (False, c0\<lparr>db_handler := s, stats := st\<lparr>stats_db_failed := stats_db_failed st + 1\<rparr>\<rparr>))
             else (False, c));
          (db_stored_secondary', c2) =
            (if secondary_database_enabled c1 then
               (let (can_attempt_secondary, c1a) =
                      (if database_enabled c1 then
                         (if db_stored_primary then (True, c1)
                          else (False, log_event (SkippedSecondary output_file) c1))
                       else (True, c1))
                in if can_attempt_secondary then
                     (let c1b = log_event (StoringSecondary output_file) c1a;
                          (r, s) = store_fragment (sha256 e) (dir c1b) (db_handler_secondary c1b)
                                     output_file ifc_file metadata;
                          st = stats c1b
                      in if put_ok r
                         then (True, c1b\<lparr>db_handler_secondary := s,
                                 stats := st\<lparr>stats_db_stored_secondary := stats_db_stored_secondary st + 1\<rparr>\<rparr>)
                         else (False, c1b\<lparr>db_handler_secondary := s,
                                 stats := st\<lparr>stats_db_failed_secondary := stats_db_failed_secondary st + 1\<rparr>\<rparr>))
                   else (False, c1a))
             else (False, c1))
      in (\<lparr>result_file = ifc_file, status = Success, message = ''Conversion successful'',
            conversion_time = conv_time, db_stored = db_stored_primary,
            db_stored_secondary = db_stored_secondary',
            result_stats = Some (input_size_mb metadata, output_size_mb metadata,
                                 compression_ratio_percent metadata)\<rparr>,
          c2))"

text \<open>
  \<open>_process_successful_conversion\<close>. It runs inside the \<open>try\<close> of
  \<open>convert_single_file\<close>; an exception it raises (a \<open>stat\<close> of a file that is gone)
  is returned to the caller, before any store is attempted.
\<close>

definition process_successful_conversion ::
  "env \<Rightarrow> converter \<Rightarrow> string \<Rightarrow> string \<Rightarrow> rat \<Rightarrow> py_error + (result \<times> converter)" where
  "process_successful_conversion e c ifc_file output_file conv_time =
     (case st_size (dir c) ifc_file of
        Inl err \<Rightarrow> Inl err
      | Inr isz \<Rightarrow>
          (case st_size (dir c) output_file of
             Inl err \<Rightarrow> Inl err
           | Inr osz \<Rightarrow>
               (case compression_ratio (file_size_mb isz) (file_size_mb osz) of
                  Inl err \<Rightarrow> Inl err
                | Inr ratio \<Rightarrow>
                    Inr (store_fragment_and_return_result e c ifc_file output_file conv_time
                      \<lparr>conversion_time_seconds = conv_time,
                       input_size_mb = file_size_mb isz,
                       output_size_mb = file_size_mb osz,
                       compression_ratio_percent = ratio,
                       ifc_source_path = ifc_file,
                       converter_version = ''portable_ifc_fragments_converter'',
                       project_name = PjName e,
                       metadata_note = None\<rparr>))))"

text \<open>\<open>_fallback_mock_conversion\<close>: the placeholder artifact and its metadata.\<close>

definition mock_fragment_data :: "bytes \<Rightarrow> bytes" where
  "mock_fragment_data ifc_data =
     ''MOCK_FRAGMENT_HEADER'' @ [CHR 0x0A] @ take 1024 ifc_data @ [CHR 0x0A] @ ''MOCK_FRAGMENT_FOOTER''"

definition mock_failed :: "string \<Rightarrow> py_error \<Rightarrow> rat \<Rightarrow> result" where
  "mock_failed ifc_file err conv_time =
     \<lparr>result_file = ifc_file, status = Failed,
      message = ''Mock conversion failed: '' @ str_of_error err,
      conversion_time = conv_time, db_stored = False, db_stored_secondary = False,
      result_stats = None\<rparr>"

definition fallback_mock_conversion ::
  "env \<Rightarrow> converter \<Rightarrow> string \<Rightarrow> string \<Rightarrow> result \<times> converter" where
  "fallback_mock_conversion e c ifc_file output_file =
     (case read_bytes (dir c) ifc_file of
        Inl err \<Rightarrow> (mock_failed ifc_file err (elapsed e ifc_file), log_event (MockFailed ifc_file) c)
      | Inr ifc_data \<Rightarrow>
          (case write_bytes (dir c) output_file (mock_fragment_data ifc_data) of
             Inl err \<Rightarrow> (mock_failed ifc_file err (elapsed e ifc_file), log_event (MockFailed ifc_file) c)
           | Inr d1 \<Rightarrow>
               (let c1 = c\<lparr>dir := d1\<rparr>; conv_time = elapsed e ifc_file in
                case st_size d1 ifc_file of
                  Inl err \<Rightarrow> (mock_failed ifc_file err (elapsed e ifc_file), log_event (MockFailed ifc_file) c1)
                | Inr isz \<Rightarrow>
                    (case st_size d1 output_file of
                       Inl err \<Rightarrow> (mock_failed ifc_file err (elapsed e ifc_file), log_event (MockFailed ifc_file) c1)
                     | Inr osz \<Rightarrow>
                         (case compression_ratio (file_size_mb isz) (file_size_mb osz) of
                            Inl err \<Rightarrow> (mock_failed ifc_file err (elapsed e ifc_file),
                                        log_event (MockFailed ifc_file) c1)
                          | Inr ratio \<Rightarrow>
                              store_fragment_and_return_result e c1 ifc_file output_file conv_time
                                \<lparr>conversion_time_seconds = conv_time,
                                 input_size_mb = file_size_mb isz,
                                 output_size_mb = file_size_mb osz,
                                 compression_ratio_percent = ratio,
                                 ifc_source_path = ifc_file,
                                 converter_version = ''mock_converter_fallback'',
                                 project_name = PjName e,
                                 metadata_note =
                                   Some ''Mock conversion used due to portable converter issues''\<rparr>)))))"

text \<open>\<open>str\<close> of an integer, for the messages that quote an exit status or a timeout.\<close>

function str_nat :: "nat \<Rightarrow> string" where
  "str_nat n =
     (if n < 10 then [char_of (48 + n)]
      else str_nat (n div 10) @ [char_of (48 + n mod 10)])"
  by pat_completeness auto
termination
  by (relation "measure id") auto

definition str_int :: "int \<Rightarrow> string" where
  "str_int i = (if i < 0 then ''-'' @ str_nat (nat (- i)) else str_nat (nat i))"

text \<open>
  The body of the \<open>try\<close> in \<open>convert_single_file\<close> decides what the run of the portable
  converter amounts to: a converted fragment, or one of the two exception handlers.
\<close>

datatype attempt = Converted | Raised py_error | TimedOut

definition worker_attempt :: "run_outcome \<Rightarrow> fsys \<Rightarrow> string \<Rightarrow> attempt" where
  "worker_attempt outcome d output_file =
     (case outcome of
        Exited returncode out err \<Rightarrow>
          if returncode = 0 then
            (if path_exists d output_file
                \<and> (case st_size d output_file of Inl x \<Rightarrow> False | Inr n \<Rightarrow> n > 0)
             then Converted
             else Raised (PyException ''Output file not created or is empty''))
          else Raised (PyException
                 (''Portable converter failed with code '' @ str_int returncode @ '': '' @ err))
      | TimeoutExpired \<Rightarrow> TimedOut
      | LaunchError m \<Rightarrow> Raised (OSError m))"

definition convert_single_file :: "env \<Rightarrow> converter \<Rightarrow> string \<Rightarrow> result \<times> converter" where
  "convert_single_file e c ifc_file =
     (let output_file = stem ifc_file @ ''.frag'';
          (outcome, d1) = portable_converter e ifc_file (dir c);
          c1 = c\<lparr>dir := d1\<rparr>
      in case worker_attempt outcome d1 output_file of
           Converted \<Rightarrow>
             (case process_successful_conversion e c1 ifc_file output_file (elapsed e ifc_file) of
                Inr rc \<Rightarrow> rc
              | Inl err \<Rightarrow>
                  fallback_mock_conversion e (log_event (WorkerFailed ifc_file) c1) ifc_file output_file)
         | TimedOut \<Rightarrow>
             fallback_mock_conversion e (log_event (WorkerTimedOut ifc_file) c1) ifc_file output_file
         | Raised err \<Rightarrow>
             fallback_mock_conversion e (log_event (WorkerFailed ifc_file) c1) ifc_file output_file)"

text \<open>\<open>find_ifc_files\<close>: \<open>sorted(set(...))\<close> of the names matching either pattern.\<close>

definition find_ifc_files :: "converter \<Rightarrow> string list" where
  "find_ifc_files c =
     (let names = map fst (files (dir c));
          ifc_files = glob_star ''.ifc'' names @ glob_star ''.IFC'' names
      in sort (remdups ifc_files))"

text \<open>The loop of \<open>convert_all_files\<close> over the discovered files.\<close>

fun process_files :: "env \<Rightarrow> converter \<Rightarrow> string list \<Rightarrow> converter" where
  "process_files e c [] = c"
| "process_files e c (ifc_file # rest) =
     (let (r, c1) = convert_single_file e c ifc_file;
          st = (stats c1)\<lparr>results := results (stats c1) @ [r]\<rparr>;
          st1 = (case status r of
                   Success \<Rightarrow> st\<lparr>successful := successful st + 1\<rparr>
                 | Failed \<Rightarrow> st\<lparr>failed := failed st + 1\<rparr>
                 | Skipped \<Rightarrow> st\<lparr>skipped := skipped st + 1\<rparr>)
      in process_files e (c1\<lparr>stats := st1\<rparr>) rest)"

text \<open>
  \<open>save_report\<close> catches the failure to write the file and logs a warning.
\<close>

definition save_report :: "env \<Rightarrow> converter \<Rightarrow> converter" where
  "save_report e c =
     (if report_writable e then log_event ReportSaved (c\<lparr>reports := reports c @ [stats c]\<rparr>)
      else log_event CouldNotSaveReport c)"

text \<open>
  \<open>print_summary\<close>. For an enabled handler it queries the storage statistics and
  computes \<open>db_stats.get('total_size_bytes', 0) / (1024 * 1024)\<close>; the key is present
  with the value \<open>None\<close> when the table is empty, and the division raises \<open>TypeError\<close>.
  The success rate divides by \<open>total_files\<close> when \<open>successful > 0\<close>. The report is
  saved last. An exception leaves \<open>print_summary\<close> with the state reached so far. The
  function is written as its three blocks in sequence: the statistics of the primary
  handler, those of the secondary handler, and the rates, the detailed results and the
  report.
\<close>

definition storage_summary :: "sink \<Rightarrow> py_error option \<times> sink" where
  "storage_summary s =
     (let (db_stats, s1) = get_storage_stats s
      in case db_stats of
           None \<Rightarrow> (None, s1)
         | Some d \<Rightarrow>
             (case total_size_bytes d of
                None \<Rightarrow> (Some TypeError, s1)
              | Some n \<Rightarrow> (None, s1)))"

definition db_info_primary :: "converter \<Rightarrow> result \<Rightarrow> db_mark" where
  "db_info_primary c r =
     (if database_enabled c then (if db_stored r then MarkStored else MarkFailed) else MarkNone)"

definition db_info_secondary :: "converter \<Rightarrow> result \<Rightarrow> db_mark" where
  "db_info_secondary c r =
     (if secondary_database_enabled c then
        (let attempted_secondary_in_result =
               (if status r = Success
                then (if database_enabled c then db_stored r else True)
                else False)
         in if attempted_secondary_in_result
            then (if db_stored_secondary r then MarkStored else MarkFailed)
            else MarkNotAttempted)
      else MarkNone)"

definition summary_primary :: "converter \<Rightarrow> py_error option \<times> converter" where
  "summary_primary c =
     (if database_enabled c
      then (let (er, s) = storage_summary (db_handler c) in (er, c\<lparr>db_handler := s\<rparr>))
      else (None, c))"

definition summary_secondary :: "converter \<Rightarrow> py_error option \<times> converter" where
  "summary_secondary c =
     (if secondary_database_enabled c
      then (let (er, s) = storage_summary (db_handler_secondary c)
            in (er, c\<lparr>db_handler_secondary := s\<rparr>))
      else (None, c))"

definition summary_results :: "env \<Rightarrow> converter \<Rightarrow> py_error option \<times> converter" where
  "summary_results e c =
     (if successful (stats c) > 0 \<and> total_files (stats c) = 0
      then (Some ZeroDivisionError, c)
      else
        (None,
         save_report e
           (c\<lparr>log := log c @
                  map (\<lambda>r. ResultLine (result_file r) (status r)
                             (db_info_primary c r) (db_info_secondary c r))
                      (results (stats c))\<rparr>)))"

definition print_summary :: "env \<Rightarrow> converter \<Rightarrow> py_error option \<times> converter" where
  "print_summary e c =
     (case summary_primary c of
        (Some er, c1) \<Rightarrow> (Some er, c1)
      | (None, c1) \<Rightarrow>
          (case summary_secondary c1 of
             (Some er, c2) \<Rightarrow> (Some er, c2)
           | (None, c2) \<Rightarrow> summary_results e c2))"

definition convert_all_files :: "env \<Rightarrow> converter \<Rightarrow> py_error option \<times> converter" where
  "convert_all_files e c =
     (let ifc_files = find_ifc_files c;
          c1 = c\<lparr>stats := (stats c)\<lparr>total_files := length ifc_files\<rparr>\<rparr>
      in if ifc_files = [] then (None, log_event NoFilesFound c1)
         else print_summary e (process_files e c1 ifc_files))"



definition validate_environment :: "env \<Rightarrow> bool" where
  "validate_environment e =
     (converter_package_dir_exists e \<and> portable_converter_exists e \<and> source_dir_exists e)"

text \<open>\<open>run\<close> returns \<open>False\<close> when the environment is invalid or an exception escapes.\<close>

definition run :: "env \<Rightarrow> converter \<Rightarrow> bool \<times> converter" where
  "run e c =
     (if \<not> validate_environment e then (False, log_event EnvironmentInvalid c)
      else
        (case convert_all_files e c of
           (None, c1) \<Rightarrow> (True, c1)
         | (Some err, c1) \<Rightarrow> (False, log_event (UnexpectedError err) c1)))"

text \<open>
  \<open>ProjectIfcConverter.__init__\<close>: a handler is enabled when its constructor, which
  creates the schema, reaches the server. The secondary configuration is absent for a
  project domain that has none.
\<close>

definition no_sink :: sink where
  "no_sink = \<lparr>db_script = [], db_rows = [], db_serial = 0, store_calls = []\<rparr>"

definition new_stats :: statistics where
  "new_stats = \<lparr>total_files = 0, successful = 0, failed = 0, skipped = 0,
                 stats_db_stored = 0, stats_db_failed = 0, stats_db_stored_secondary = 0,
                 stats_db_failed_secondary = 0, results = []\<rparr>"

definition new_converter :: "sink \<Rightarrow> sink option \<Rightarrow> fsys \<Rightarrow> converter" where
  "new_converter primary secondary_db_config d =
     (let (ok1, s1) = get_connection primary;
          (ok2, s2) = (case secondary_db_config of
                         None \<Rightarrow> (False, no_sink)
                       | Some s \<Rightarrow> get_connection s)
      in \<lparr>database_enabled = ok1, secondary_database_enabled = ok2,
           db_handler = s1, db_handler_secondary = s2, stats = new_stats,
           dir = d, log = [], reports = []\<rparr>)"

section \<open>backend/subprocess\_converter.py and the upload endpoint\<close>

text \<open>
  The dictionary returned by \<open>XFRGSubprocessConverter.convert_ifc_file\<close>; a key that a
  branch does not set is \<open>None\<close>. \<open>conversion_time\<close> is rounded to two decimals
  except for the literal \<open>0\<close> of the first branch.
\<close>

record sc_result =
  sc_success :: bool
  sc_error :: "string option"
  sc_conversion_time :: rat
  sc_output_file :: "string option"
  sc_file_size :: "nat option"
  sc_return_code :: "int option"
  sc_timeout :: "nat option"
  sc_exception :: "string option"

text \<open>
  What the call is given from outside: the Node.js child, run on a command line with a
  timeout (it may change the files), whether the directory of the output path can be
  created, the path of the converter script and the elapsed time.
\<close>

record sc_env =
  node :: "string list \<Rightarrow> nat \<Rightarrow> fsys \<Rightarrow> run_outcome \<times> fsys"
  mkdir_parent_ok :: "string \<Rightarrow> bool"
  converter_script :: string
  sc_elapsed :: rat

text \<open>\<open>Path.name\<close>: the last component of a path.\<close>

definition path_name :: "string \<Rightarrow> string" where
  "path_name p = rev (takeWhile (\<lambda>c. c \<noteq> CHR ''/'') (rev p))"

definition round2 :: "rat \<Rightarrow> rat" where
  "round2 t = of_int (round (t * 100)) / 100"

definition sc_failure :: "string \<Rightarrow> rat \<Rightarrow> sc_result" where
  "sc_failure msg t =
     \<lparr>sc_success = False, sc_error = Some msg, sc_conversion_time = t,
      sc_output_file = None, sc_file_size = None, sc_return_code = None,
      sc_timeout = None, sc_exception = None\<rparr>"

text \<open>
  The model returns the dictionary, or the exception that reaches the caller, together
  with the command lines of the child processes launched and the files afterwards.
  \<open>output_path.parent.mkdir\<close> stands before the \<open>try\<close>.
\<close>

definition convert_ifc_file ::
  "sc_env \<Rightarrow> fsys \<Rightarrow> string \<Rightarrow> string \<Rightarrow> nat
     \<Rightarrow> (py_error + sc_result) \<times> string list list \<times> fsys" where
  "convert_ifc_file v d input_file output_file timeout =
     (if \<not> path_exists d input_file then
        (Inr (sc_failure (''Input file not found: '' @ input_file) 0), [], d)
      else if \<not> mkdir_parent_ok v output_file then (Inl (OSError output_file), [], d)
      else
        (let cmd = [''node'', ''--max-old-space-size=8192'', converter_script v,
                    ''--input'', input_file, ''--output'', output_file];
             (outcome, d1) = node v cmd timeout d;
             conv_time = round2 (sc_elapsed v)
         in case outcome of
              Exited returncode out err \<Rightarrow>
                if returncode = 0 \<and> path_exists d1 output_file then
                  (case st_size d1 output_file of
                     Inl ex \<Rightarrow>
                       (Inr ((sc_failure (''Subprocess execution failed: '' @ str_of_error ex) conv_time)
                              \<lparr>sc_exception := Some (str_of_error ex)\<rparr>), [cmd], d1)
                   | Inr sz \<Rightarrow>
                       (Inr \<lparr>sc_success = True, sc_error = None, sc_conversion_time = conv_time,
                             sc_output_file = Some (path_name output_file), sc_file_size = Some sz,
                             sc_return_code = None, sc_timeout = None, sc_exception = None\<rparr>,
                        [cmd], d1))
                else
                  (Inr ((sc_failure
                          (if err \<noteq> [] then err
                           else ''Conversion failed with return code '' @ str_int returncode)
                          conv_time)
                         \<lparr>sc_return_code := Some returncode\<rparr>), [cmd], d1)
            | TimeoutExpired \<Rightarrow>
                (Inr ((sc_failure (''Conversion timed out after '' @ str_nat timeout @ '' seconds'')
                         conv_time)
                       \<lparr>sc_timeout := Some timeout\<rparr>), [cmd], d1)
            | LaunchError m \<Rightarrow>
                (Inr ((sc_failure (''Subprocess execution failed: '' @ m) conv_time)
                       \<lparr>sc_exception := Some m\<rparr>), [cmd], d1)))"

text \<open>
  The \<open>success\<close> key of the response of \<open>convert_ifc\<close> in \<open>backend/app.py\<close>, once the
  child has exited with \<open>returncode\<close>.
\<close>

definition convert_ifc_success :: "int \<Rightarrow> fsys \<Rightarrow> string \<Rightarrow> bool" where
  "convert_ifc_success returncode d output_path = (returncode = 0 \<and> path_exists d output_path)"

section \<open>Example inputs\<close>

text \<open>
  A directory, sinks and an environment on which the properties below are evaluated. The
  example hash is the identity; the example converter always exits with status 1; the
  example Node.js child exits with status 0 and leaves an empty output file.
\<close>

definition ex_sink :: "bool list \<Rightarrow> sink" where
  "ex_sink script = \<lparr>db_script = script, db_rows = [], db_serial = 1, store_calls = []\<rparr>"

definition ex_dir :: fsys where
  "ex_dir = \<lparr>files = [(''b.ifc'', \<lparr>content = ''ISO-10303-21;'', readable = True\<rparr>),
                       (''a.IFC'', \<lparr>content = '''', readable = False\<rparr>),
                       (''b.frag'', \<lparr>content = ''FRAG'', readable = True\<rparr>),
                       (''notes.txt'', \<lparr>content = ''x'', readable = True\<rparr>)],
            write_denied = []\<rparr>"

definition ex_env :: env where
  "ex_env = \<lparr>sha256 = (\<lambda>b. b),
             portable_converter = (\<lambda>name d. (Exited 1 [] ''node: not found'', d)),
             elapsed = (\<lambda>name. 2),
             PjName = ''PJ'',
             report_writable = True,
             converter_package_dir_exists = True,
             portable_converter_exists = True,
             source_dir_exists = True\<rparr>"

definition ex_converter :: "bool list \<Rightarrow> bool list \<Rightarrow> fsys \<Rightarrow> converter" where
  "ex_converter script1 script2 d = new_converter (ex_sink (True # script1)) (Some (ex_sink (True # script2))) d"

definition ex_metadata :: conversion_metadata where
  "ex_metadata = \<lparr>conversion_time_seconds = 2, input_size_mb = 1, output_size_mb = 1,
     compression_ratio_percent = 0, ifc_source_path = ''b.ifc'',
     converter_version = ''portable_ifc_fragments_converter'', project_name = ''PJ'',
     metadata_note = None\<rparr>"

definition ex_sc_env :: sc_env where
  "ex_sc_env = \<lparr>node = (\<lambda>cmd timeout d.
                   (Exited 0 [] [], d\<lparr>files := AList.update (last cmd) \<lparr>content = [], readable = True\<rparr> (files d)\<rparr>)),
                mkdir_parent_ok = (\<lambda>p. True),
                converter_script = ''backend/ifc_converter.js'',
                sc_elapsed = 3\<rparr>"

definition ex_empty_dir :: fsys where
  "ex_empty_dir = \<lparr>files = [(''notes.txt'', \<lparr>content = ''x'', readable = True\<rparr>)], write_denied = []\<rparr>"

definition ex_unreadable_dir :: fsys where
  "ex_unreadable_dir = \<lparr>files = [(''a.IFC'', \<lparr>content = '''', readable = False\<rparr>)], write_denied = []\<rparr>"

section \<open>Properties of the resource policy\<close>

lemma file_size_mb_mono: "a \<le> b \<Longrightarrow> file_size_mb a \<le> file_size_mb b"
  by (simp add: file_size_mb_def divide_right_mono)

lemma convert_ifc_timeout_mono:
  assumes "a \<le> b"
  shows "timeout_seconds (convert_ifc_policy a) \<le> timeout_seconds (convert_ifc_policy b)"
  using file_size_mb_mono [OF assms] by (simp add: convert_ifc_policy_def Let_def)

lemma convert_ifc_memory_mono:
  assumes "a \<le> b"
  shows "memoryBudget (node_flags (convert_ifc_policy a)) \<le> memoryBudget (node_flags (convert_ifc_policy b))"
  using file_size_mb_mono [OF assms] by (simp add: convert_ifc_policy_def Let_def)

lemma convert_ifc_subprocess_timeout_mono:
  assumes "a \<le> b"
  shows "convert_ifc_subprocess_timeout a \<le> convert_ifc_subprocess_timeout b"
  using file_size_mb_mono [OF assms] by (simp add: convert_ifc_subprocess_timeout_def Let_def)

lemma three_tiers:
  "distinct (map tier [0, 21 * 1024 * 1024, 51 * 1024 * 1024])"
  by (simp add: tier_def convert_ifc_policy_def file_size_mb_def Let_def)

text \<open>
  C5. The resource policy is monotonic in the input size: for \<open>size1 < size2\<close> the upload
  endpoint gives \<open>size1\<close> no longer a timeout and no larger a memory budget than \<open>size2\<close>,
  and the timeout of the subprocess endpoint is monotonic too. The upload endpoint has three
  pairwise distinct (timeout, memory) tiers, reached at 0 bytes, 21 MB and 51 MB.
\<close>

theorem resource_policy_monotonic:
  assumes "size1 < size2"
  shows "timeout_seconds (convert_ifc_policy size1) \<le> timeout_seconds (convert_ifc_policy size2)
       \<and> memoryBudget (node_flags (convert_ifc_policy size1))
           \<le> memoryBudget (node_flags (convert_ifc_policy size2))
       \<and> convert_ifc_subprocess_timeout size1 \<le> convert_ifc_subprocess_timeout size2
       \<and> distinct (map tier [0, 21 * 1024 * 1024, 51 * 1024 * 1024])"
proof -
  from assms have le: "size1 \<le> size2" by simp
  show ?thesis
    using convert_ifc_timeout_mono [OF le] convert_ifc_memory_mono [OF le]
      convert_ifc_subprocess_timeout_mono [OF le] three_tiers
    by blast
qed

theorem resource_policy_monotonic_witness:
  "timeout_seconds (convert_ifc_policy (5 * 1024 * 1024)) = 600
   \<and> timeout_seconds (convert_ifc_policy (60 * 1024 * 1024)) = 3600
   \<and> memoryBudget (node_flags (convert_ifc_policy (5 * 1024 * 1024))) = None
   \<and> memoryBudget (node_flags (convert_ifc_policy (60 * 1024 * 1024))) = Some 8192
   \<and> timeout_seconds (convert_ifc_policy (5 * 1024 * 1024))
       \<le> timeout_seconds (convert_ifc_policy (60 * 1024 * 1024))
   \<and> memoryBudget (node_flags (convert_ifc_policy (5 * 1024 * 1024)))
       \<le> memoryBudget (node_flags (convert_ifc_policy (60 * 1024 * 1024)))"
proof -
  have lt: "(5 * 1024 * 1024 :: nat) < 60 * 1024 * 1024" by simp
  have vals: "timeout_seconds (convert_ifc_policy (5 * 1024 * 1024)) = 600
    \<and> timeout_seconds (convert_ifc_policy (60 * 1024 * 1024)) = 3600
    \<and> memoryBudget (node_flags (convert_ifc_policy (5 * 1024 * 1024))) = None
    \<and> memoryBudget (node_flags (convert_ifc_policy (60 * 1024 * 1024))) = Some 8192"
    by (simp add: convert_ifc_policy_def file_size_mb_def Let_def)
  show ?thesis
    using resource_policy_monotonic [OF lt] vals by blast
qed

section \<open>Properties of the sinks\<close>

lemma get_connection_frame:
  "get_connection s = (b, s') \<Longrightarrow> db_rows s' = db_rows s \<and> store_calls s' = store_calls s \<and> db_serial s' = db_serial s"
  by (auto simp: get_connection_def split: list.splits)

lemma store_fragment_present:
  assumes "read_bytes d f = Inr data" "H data \<in> set (map file_hash (db_rows s))"
    and "store_fragment H d s f src meta = (r, s')"
  shows "db_rows s' = db_rows s \<and> (if answers s then r = AlreadyPresent else r = PutFailed)"
  using assms
  by (auto simp: store_fragment_def answers_def get_connection_def Let_def split: list.splits if_splits prod.splits)

lemma store_fragment_ok_hash:
  assumes "store_fragment H d s f src meta = (r, s')" "put_ok r" "read_bytes d f = Inr data"
  shows "H data \<in> set (map file_hash (db_rows s'))"
  using assms
  by (auto simp: store_fragment_def answers_def get_connection_def Let_def split: list.splits if_splits prod.splits)

text \<open>
  C4. The put of a sink is idempotent. When the hash of the file is already in the table,
  \<open>store_fragment\<close> inserts nothing; it returns from the "already exists" branch, which
  is the value \<open>True\<close>, whenever the server answers, and fails otherwise. Hence after a
  successful store, a second store of the same bytes (under any name and metadata) to a
  server that answers returns from the "already exists" branch and leaves the table, and so
  the number of its rows, unchanged.
\<close>

theorem store_fragment_idempotent:
  assumes "read_bytes d f = Inr data"
    and "store_fragment H d s f src meta = (r, s')"
  shows "(H data \<in> set (map file_hash (db_rows s)) \<longrightarrow>
            db_rows s' = db_rows s
          \<and> (answers s \<longrightarrow> r = AlreadyPresent \<and> put_ok r)
          \<and> (\<not> answers s \<longrightarrow> r = PutFailed))
       \<and> (put_ok r \<longrightarrow>
            (\<forall>d2 f2 src2 meta2 r2 s2.
               read_bytes d2 f2 = Inr data \<and> answers s'
               \<and> store_fragment H d2 s' f2 src2 meta2 = (r2, s2) \<longrightarrow>
               r2 = AlreadyPresent \<and> put_ok r2 \<and> db_rows s2 = db_rows s'
               \<and> length (db_rows s2) = length (db_rows s')))"
proof -
  have a: "H data \<in> set (map file_hash (db_rows s)) \<longrightarrow>
            db_rows s' = db_rows s
          \<and> (answers s \<longrightarrow> r = AlreadyPresent \<and> put_ok r)
          \<and> (\<not> answers s \<longrightarrow> r = PutFailed)"
    using store_fragment_present [OF assms(1) _ assms(2)] by (auto split: if_splits)
  have b: "put_ok r \<longrightarrow>
            (\<forall>d2 f2 src2 meta2 r2 s2.
               read_bytes d2 f2 = Inr data \<and> answers s'
               \<and> store_fragment H d2 s' f2 src2 meta2 = (r2, s2) \<longrightarrow>
               r2 = AlreadyPresent \<and> put_ok r2 \<and> db_rows s2 = db_rows s'
               \<and> length (db_rows s2) = length (db_rows s'))"
  proof (intro impI allI)
    fix d2 f2 src2 meta2 r2 s2
    assume ok: "put_ok r"
      and h: "read_bytes d2 f2 = Inr data \<and> answers s' \<and> store_fragment H d2 s' f2 src2 meta2 = (r2, s2)"
    from store_fragment_ok_hash [OF assms(2) ok assms(1)]
    have "H data \<in> set (map file_hash (db_rows s'))" .
    with store_fragment_present [of d2 f2 data H s' src2 meta2 r2 s2] h
    show "r2 = AlreadyPresent \<and> put_ok r2 \<and> db_rows s2 = db_rows s' \<and> length (db_rows s2) = length (db_rows s')"
      by (auto split: if_splits)
  qed
  from a b show ?thesis by blast
qed

theorem store_fragment_idempotent_witness:
  "put_ok (fst (store_fragment (\<lambda>b. b) ex_dir (ex_sink []) ''b.frag'' ''b.ifc'' ex_metadata))
   \<and> length (db_rows (snd (store_fragment (\<lambda>b. b) ex_dir (ex_sink []) ''b.frag'' ''b.ifc'' ex_metadata))) = 1
   \<and> fst (store_fragment (\<lambda>b. b) ex_dir
            (snd (store_fragment (\<lambda>b. b) ex_dir (ex_sink []) ''b.frag'' ''b.ifc'' ex_metadata))
            ''b.frag'' ''b.ifc'' ex_metadata) = AlreadyPresent
   \<and> length (db_rows (snd (store_fragment (\<lambda>b. b) ex_dir
            (snd (store_fragment (\<lambda>b. b) ex_dir (ex_sink []) ''b.frag'' ''b.ifc'' ex_metadata))
            ''b.frag'' ''b.ifc'' ex_metadata))) = 1"
proof -
  let ?st = "store_fragment (\<lambda>b. b) ex_dir (ex_sink []) ''b.frag'' ''b.ifc'' ex_metadata"
  let ?st2 = "store_fragment (\<lambda>b. b) ex_dir (snd ?st) ''b.frag'' ''b.ifc'' ex_metadata"
  have rd: "read_bytes ex_dir ''b.frag'' = Inr ''FRAG''"
    by (simp add: read_bytes_def ex_dir_def)
  have first: "put_ok (fst ?st)" "length (db_rows (snd ?st)) = 1" "answers (snd ?st)"
    by (simp_all add: store_fragment_def ex_dir_def ex_sink_def read_bytes_def get_connection_def Let_def answers_def)
  from store_fragment_idempotent [OF rd prod.collapse [symmetric], of "\<lambda>b. b" "ex_sink []" "''b.ifc''" ex_metadata] first(1)
  have "\<forall>d2 f2 src2 meta2 r2 s2.
               read_bytes d2 f2 = Inr ''FRAG'' \<and> answers (snd ?st)
               \<and> store_fragment (\<lambda>b. b) d2 (snd ?st) f2 src2 meta2 = (r2, s2) \<longrightarrow>
               r2 = AlreadyPresent \<and> put_ok r2 \<and> db_rows s2 = db_rows (snd ?st)
               \<and> length (db_rows s2) = length (db_rows (snd ?st))"
    by blast
  from this [rule_format, of ex_dir "''b.frag''" "''b.ifc''" ex_metadata "fst ?st2" "snd ?st2"] rd first
  show ?thesis by simp
qed

section \<open>Properties of the store step\<close>

lemma store_calls_step:
  "store_fragment H d s f src meta = (r, s') \<Longrightarrow> store_calls s' = store_calls s @ [f]"
  by (auto simp: store_fragment_def get_connection_def Let_def split: list.splits if_splits prod.splits sum.splits)

text \<open>
  C1. Dependent-attempt policy. \<open>_store_fragment_and_return_result\<close> is reached only for
  an item whose conversion succeeded, and its result has status success. The \<open>db_stored\<close>
  key is the outcome of the primary store when the primary sink is enabled. With a
  secondary sink enabled, the secondary sink receives a store call for the item if and only
  if the primary sink is not enabled or the primary store succeeded. When the primary sink
  is enabled and its store failed, the secondary sink is left untouched, neither secondary
  counter moves, the result does not say "stored", and the summary shows the item as not
  attempted and the log has the "skipped" warning.
\<close>

theorem dependent_attempt_policy:
  assumes "store_fragment_and_return_result e c ifc out t m = (r, c')"
  shows "status r = Success
    \<and> (database_enabled c \<longrightarrow>
         db_stored r = put_ok (fst (store_fragment (sha256 e) (dir c) (db_handler c) out ifc m)))
    \<and> (secondary_database_enabled c \<longrightarrow>
         (store_calls (db_handler_secondary c') = store_calls (db_handler_secondary c) @ [out])
           = (\<not> database_enabled c \<or> db_stored r))
    \<and> (database_enabled c \<and> \<not> db_stored r \<longrightarrow>
         db_handler_secondary c' = db_handler_secondary c
         \<and> \<not> db_stored_secondary r
         \<and> stats_db_stored_secondary (stats c') = stats_db_stored_secondary (stats c)
         \<and> stats_db_failed_secondary (stats c') = stats_db_failed_secondary (stats c)
         \<and> (secondary_database_enabled c \<longrightarrow>
              db_info_secondary c' r = MarkNotAttempted \<and> SkippedSecondary out \<in> set (log c')))"
  using assms
  by (auto simp: store_fragment_and_return_result_def log_event_def Let_def db_info_secondary_def
      dest: store_calls_step split: prod.splits if_splits)

theorem dependent_attempt_policy_witness:
  "database_enabled (ex_converter [False] [] ex_dir)
   \<and> secondary_database_enabled (ex_converter [False] [] ex_dir)
   \<and> \<not> db_stored (fst (store_fragment_and_return_result ex_env (ex_converter [False] [] ex_dir) ''b.ifc'' ''b.frag'' 2 ex_metadata))
   \<and> store_calls (db_handler_secondary (snd (store_fragment_and_return_result ex_env (ex_converter [False] [] ex_dir) ''b.ifc'' ''b.frag'' 2 ex_metadata))) = []
   \<and> db_info_secondary (snd (store_fragment_and_return_result ex_env (ex_converter [False] [] ex_dir) ''b.ifc'' ''b.frag'' 2 ex_metadata))
        (fst (store_fragment_and_return_result ex_env (ex_converter [False] [] ex_dir) ''b.ifc'' ''b.frag'' 2 ex_metadata)) = MarkNotAttempted"
proof -
  let ?c = "ex_converter [False] [] ex_dir"
  let ?p = "store_fragment_and_return_result ex_env ?c ''b.ifc'' ''b.frag'' 2 ex_metadata"
  have en: "database_enabled ?c" "secondary_database_enabled ?c" "store_calls (db_handler_secondary ?c) = []"
    by (simp_all add: ex_converter_def new_converter_def ex_sink_def get_connection_def)
  have nst: "\<not> db_stored (fst ?p)"
    by (simp add: store_fragment_and_return_result_def ex_env_def ex_converter_def ex_dir_def ex_metadata_def new_converter_def ex_sink_def get_connection_def Let_def log_event_def store_fragment_def read_bytes_def new_stats_def)
  from dependent_attempt_policy [OF prod.collapse [symmetric], of ex_env ?c "''b.ifc''" "''b.frag''" 2 ex_metadata]
  show ?thesis using en nst by simp
qed

text \<open>
  The caller of \<open>store_fragment\<close> counts the "already exists" return as a store: the
  result says "stored", the counter of stored fragments moves, the counter of failures
  does not, and the table is unchanged.
\<close>

lemma already_present_counts_as_stored:
  assumes "store_fragment_and_return_result e c ifc out t m = (r, c')"
    and "database_enabled c"
    and "read_bytes (dir c) out = Inr data"
    and "sha256 e data \<in> set (map file_hash (db_rows (db_handler c)))"
    and "answers (db_handler c)"
  shows "db_stored r \<and> stats_db_stored (stats c') = stats_db_stored (stats c) + 1
       \<and> stats_db_failed (stats c') = stats_db_failed (stats c)
       \<and> db_rows (db_handler c') = db_rows (db_handler c)"
proof -
  obtain p s where st: "store_fragment (sha256 e) (dir c) (db_handler c) out ifc m = (p, s)"
    by (cases "store_fragment (sha256 e) (dir c) (db_handler c) out ifc m")
  from store_fragment_present [OF assms(3,4) st] assms(5)
  have p: "p = AlreadyPresent" "db_rows s = db_rows (db_handler c)" by simp_all
  show ?thesis
    using assms(1,2) st p
    by (auto simp: store_fragment_and_return_result_def log_event_def Let_def
        split: prod.splits if_splits)
qed

text \<open>
  Every item passes through the store step exactly when its conversion succeeded: the
  result of \<open>convert_single_file\<close> is either a failure that has touched neither sink, or
  the result of \<open>_store_fragment_and_return_result\<close> started with the same handlers.
\<close>

lemma fallback_cases:
  assumes "fallback_mock_conversion e c f out = (r, c')"
  shows "(status r = Failed \<and> db_handler c' = db_handler c
            \<and> db_handler_secondary c' = db_handler_secondary c)
       \<or> (\<exists>d1 m. store_fragment_and_return_result e (c\<lparr>dir := d1\<rparr>) f out (elapsed e f) m = (r, c'))"
  using assms
  by (auto simp: fallback_mock_conversion_def mock_failed_def log_event_def Let_def
      split: sum.splits)

lemma convert_single_file_stores:
  assumes "convert_single_file e c f = (r, c')"
  shows "(status r = Failed \<and> db_handler c' = db_handler c
            \<and> db_handler_secondary c' = db_handler_secondary c)
       \<or> (\<exists>c0 t m. store_fragment_and_return_result e c0 f (stem f @ ''.frag'') t m = (r, c')
             \<and> database_enabled c0 = database_enabled c
             \<and> secondary_database_enabled c0 = secondary_database_enabled c
             \<and> db_handler c0 = db_handler c
             \<and> db_handler_secondary c0 = db_handler_secondary c
             \<and> stats c0 = stats c)"
proof -
  obtain outcome d1 where pc: "portable_converter e f (dir c) = (outcome, d1)"
    by (cases "portable_converter e f (dir c)")
  let ?out = "stem f @ ''.frag''"
  let ?c1 = "c\<lparr>dir := d1\<rparr>"
  let ?T = ?thesis
  have fb: "\<And>ev. fallback_mock_conversion e (log_event ev ?c1) f ?out = (r, c') \<Longrightarrow> ?T"
  proof -
    fix ev
    assume a: "fallback_mock_conversion e (log_event ev ?c1) f ?out = (r, c')"
    from fallback_cases [OF a] show ?T
    proof
      assume "status r = Failed \<and> db_handler c' = db_handler (log_event ev ?c1)
            \<and> db_handler_secondary c' = db_handler_secondary (log_event ev ?c1)"
      then show ?T by (simp add: log_event_def)
    next
      assume "\<exists>d2 m. store_fragment_and_return_result e ((log_event ev ?c1)\<lparr>dir := d2\<rparr>) f ?out
                       (elapsed e f) m = (r, c')"
      then obtain d2 m where
        "store_fragment_and_return_result e ((log_event ev ?c1)\<lparr>dir := d2\<rparr>) f ?out
                       (elapsed e f) m = (r, c')" by blast
      then show ?T
        by (intro disjI2 exI [of _ "(log_event ev ?c1)\<lparr>dir := d2\<rparr>"] exI [of _ "elapsed e f"]
            exI [of _ m]) (simp add: log_event_def)
    qed
  qed
  show ?thesis
  proof (cases "worker_attempt outcome d1 ?out")
    case Converted
    show ?thesis
    proof (cases "process_successful_conversion e ?c1 f ?out (elapsed e f)")
      case (Inl err)
      with Converted pc assms show ?thesis
        by (intro fb [of "WorkerFailed f"]) (simp add: convert_single_file_def Let_def)
    next
      case (Inr rc)
      with Converted pc assms have ps: "process_successful_conversion e ?c1 f ?out (elapsed e f) = Inr (r, c')"
        by (simp add: convert_single_file_def Let_def)
      then obtain m where "store_fragment_and_return_result e ?c1 f ?out (elapsed e f) m = (r, c')"
        by (auto simp: process_successful_conversion_def split: sum.splits)
      then show ?thesis
        by (intro disjI2 exI [of _ ?c1] exI [of _ "elapsed e f"] exI [of _ m]) simp
    qed
  next
    case (Raised err)
    with pc assms show ?thesis
      by (intro fb [of "WorkerFailed f"]) (simp add: convert_single_file_def Let_def)
  next
    case TimedOut
    with pc assms show ?thesis
      by (intro fb [of "WorkerTimedOut f"]) (simp add: convert_single_file_def Let_def)
  qed
qed

section \<open>Properties of the conversion paths\<close>

lemma sfr_result:
  "store_fragment_and_return_result e c i out t m = (r, c') \<Longrightarrow>
     result_file r = i \<and> status r = Success \<and> conversion_time r = t
     \<and> result_stats r = Some (input_size_mb m, output_size_mb m, compression_ratio_percent m)"
  by (auto simp: store_fragment_and_return_result_def Let_def split: prod.splits if_splits)

lemma sfr_result_fst:
  "result_file (fst (store_fragment_and_return_result e c i out t m)) = i"
  "status (fst (store_fragment_and_return_result e c i out t m)) = Success"
  "result_stats (fst (store_fragment_and_return_result e c i out t m))
     = Some (input_size_mb m, output_size_mb m, compression_ratio_percent m)"
  using sfr_result [OF prod.collapse [symmetric], of e c i out t m] by simp_all

lemma compression_ratio_total: "\<exists>r. compression_ratio a b = Inr r"
  by (auto simp: compression_ratio_def py_truediv_def)

lemma compression_ratio_no_error: "compression_ratio a b \<noteq> Inl err"
  by (auto simp: compression_ratio_def py_truediv_def)

lemma length_mock_empty: "length (mock_fragment_data []) = 42"
  by (simp add: mock_fragment_data_def)


lemma st_size_write_other:
  "write_bytes d out data = Inr d1 \<Longrightarrow> ifc \<noteq> out \<Longrightarrow> st_size d1 ifc = st_size d ifc"
  by (auto simp: write_bytes_def st_size_def Let_def update_conv' split: if_splits)

lemma st_size_write_same:
  "write_bytes d out data = Inr d1 \<Longrightarrow> st_size d1 out = Inr (length data)"
  by (auto simp: write_bytes_def st_size_def Let_def update_conv' split: if_splits)

lemma read_st_size: "read_bytes d f = Inr data \<Longrightarrow> st_size d f = Inr (length data)"
  by (auto simp: read_bytes_def st_size_def split: option.splits if_splits)

lemma fallback_empty_input:
  assumes "read_bytes (dir c) ifc = Inr []" "out \<notin> set (write_denied (dir c))" "ifc \<noteq> out"
  shows "status (fst (fallback_mock_conversion e c ifc out)) = Success
       \<and> result_stats (fst (fallback_mock_conversion e c ifc out)) = Some (0, file_size_mb 42, 0)"
proof -
  obtain d1 where w: "write_bytes (dir c) out (mock_fragment_data []) = Inr d1"
    using assms(2) by (simp add: write_bytes_def Let_def)
  have s1: "st_size d1 ifc = Inr 0"
    using st_size_write_other [OF w assms(3)] read_st_size [OF assms(1)] by simp
  have s2: "st_size d1 out = Inr 42"
    using st_size_write_same [OF w] length_mock_empty by simp
  have cr: "compression_ratio (file_size_mb 0) (file_size_mb 42) = Inr 0"
    by (simp add: compression_ratio_def file_size_mb_def)
  show ?thesis
    using assms(1) w s1 s2 cr
    by (simp add: fallback_mock_conversion_def Let_def sfr_result_fst file_size_mb_def)
qed

text \<open>
  C9. Computing the compression statistics never divides by zero. The ratio is always a
  value, it is 0 for an input of zero bytes, \<open>_process_successful_conversion\<close> never
  raises \<open>ZeroDivisionError\<close>, and both the primary path and the fallback path report the
  ratio 0 for an input file of zero bytes (the placeholder of an empty input has 42 bytes).
\<close>

theorem compression_never_divides_by_zero:
  "(\<exists>q. compression_ratio (file_size_mb isz) (file_size_mb osz) = Inr q)
   \<and> compression_ratio (file_size_mb 0) (file_size_mb osz) = Inr 0
   \<and> process_successful_conversion e c ifc out t \<noteq> Inl ZeroDivisionError
   \<and> (st_size (dir c) ifc = Inr 0 \<and> st_size (dir c) out = Inr osz \<longrightarrow>
        (\<exists>r c'. process_successful_conversion e c ifc out t = Inr (r, c')
                \<and> result_stats r = Some (0, file_size_mb osz, 0)))
   \<and> (read_bytes (dir c) ifc = Inr [] \<and> out \<notin> set (write_denied (dir c)) \<and> ifc \<noteq> out \<longrightarrow>
        status (fst (fallback_mock_conversion e c ifc out)) = Success
        \<and> result_stats (fst (fallback_mock_conversion e c ifc out)) = Some (0, file_size_mb 42, 0))"
proof -
  have z: "compression_ratio (file_size_mb 0) (file_size_mb osz) = Inr 0"
    by (simp add: compression_ratio_def file_size_mb_def)
  have p: "process_successful_conversion e c ifc out t \<noteq> Inl ZeroDivisionError"
    by (auto simp: process_successful_conversion_def st_size_def compression_ratio_no_error
        split: sum.splits option.splits)
  have p0: "st_size (dir c) ifc = Inr 0 \<and> st_size (dir c) out = Inr osz \<longrightarrow>
        (\<exists>r c'. process_successful_conversion e c ifc out t = Inr (r, c')
                \<and> result_stats r = Some (0, file_size_mb osz, 0))"
  proof
    assume h: "st_size (dir c) ifc = Inr 0 \<and> st_size (dir c) out = Inr osz"
    let ?m = "\<lparr>conversion_time_seconds = t, input_size_mb = file_size_mb 0,
                output_size_mb = file_size_mb osz, compression_ratio_percent = 0,
                ifc_source_path = ifc, converter_version = ''portable_ifc_fragments_converter'',
                project_name = PjName e, metadata_note = None\<rparr>"
    have "process_successful_conversion e c ifc out t
            = Inr (store_fragment_and_return_result e c ifc out t ?m)"
      using h z by (simp add: process_successful_conversion_def)
    moreover have "result_stats (fst (store_fragment_and_return_result e c ifc out t ?m))
            = Some (0, file_size_mb osz, 0)"
      by (simp add: sfr_result_fst file_size_mb_def)
    ultimately show "\<exists>r c'. process_successful_conversion e c ifc out t = Inr (r, c')
                \<and> result_stats r = Some (0, file_size_mb osz, 0)"
      by (metis prod.collapse)
  qed
  show ?thesis
    using compression_ratio_total z p p0 fallback_empty_input by blast
qed

theorem compression_never_divides_by_zero_witness:
  "st_size (dir (ex_converter [] [] ex_dir)) ''a.IFC'' = Inr 0
   \<and> st_size (dir (ex_converter [] [] ex_dir)) ''b.frag'' = Inr 4
   \<and> (\<exists>r c'. process_successful_conversion ex_env (ex_converter [] [] ex_dir) ''a.IFC'' ''b.frag'' 2
                 = Inr (r, c')
             \<and> result_stats r = Some (0, file_size_mb 4, 0))"
proof -
  have sz: "st_size (dir (ex_converter [] [] ex_dir)) ''a.IFC'' = Inr 0
     \<and> st_size (dir (ex_converter [] [] ex_dir)) ''b.frag'' = Inr 4"
    by (simp add: ex_converter_def new_converter_def ex_dir_def st_size_def ex_sink_def
        get_connection_def)
  from compression_never_divides_by_zero
    [of 0 4 ex_env "ex_converter [] [] ex_dir" "''a.IFC''" "''b.frag''" 2] sz
  show ?thesis by blast
qed

lemma worker_attempt_converted:
  "worker_attempt outcome d output_file = Converted \<longleftrightarrow>
     (\<exists>out err n. outcome = Exited 0 out err \<and> path_exists d output_file
                 \<and> st_size d output_file = Inr n \<and> 0 < n)"
  by (auto simp: worker_attempt_def split: run_outcome.splits sum.splits)

section \<open>Properties of the fallback\<close>








section \<open>Properties of the run\<close>



















lemmas ex_defs = ex_env_def ex_converter_def ex_dir_def ex_empty_dir_def ex_unreadable_dir_def
  new_converter_def ex_sink_def get_connection_def new_stats_def no_sink_def









lemmas run_defs = run_def convert_all_files_def validate_environment_def Let_def log_event_def
  find_ifc_files_def glob_star_def ends_with_def convert_single_file_def worker_attempt_def
  fallback_mock_conversion_def mock_failed_def read_bytes_def stem_def rfind_dot_def
  print_summary_def summary_primary_def summary_secondary_def summary_results_def
  storage_summary_def get_storage_stats_def save_report_def db_info_primary_def
  db_info_secondary_def





text \<open>
  The statistics of an enabled sink that answers and holds no row cannot be printed: when
  every item failed and the table of the primary sink is empty, \<open>print_summary\<close> raises
  \<open>TypeError\<close> before the report is saved, and \<open>run\<close> returns \<open>False\<close>.
\<close>

lemma summary_raises_on_empty_table:
  "validate_environment ex_env \<and> report_writable ex_env
   \<and> database_enabled (ex_converter [] [] ex_unreadable_dir)
   \<and> map status (results (stats (snd (run ex_env (ex_converter [] [] ex_unreadable_dir))))) = [Failed]
   \<and> \<not> fst (run ex_env (ex_converter [] [] ex_unreadable_dir))
   \<and> reports (snd (run ex_env (ex_converter [] [] ex_unreadable_dir))) = []
   \<and> last (log (snd (run ex_env (ex_converter [] [] ex_unreadable_dir)))) = UnexpectedError TypeError"
  by (simp add: run_defs ex_defs)

section \<open>Timeouts\<close>

text \<open>
  How the expiry of the timeout is turned into an outcome: the orchestrator goes to the
  fallback, the subprocess converter returns a failure that carries the timeout. How long
  the caller waits is decided by \<open>subprocess.run\<close> and is not part of this model.
\<close>

lemma timeout_is_failure:
  "worker_attempt TimeoutExpired d output_file = TimedOut"
  "portable_converter e ifc_file (dir c) = (TimeoutExpired, d1) \<Longrightarrow>
     convert_single_file e c ifc_file =
       fallback_mock_conversion e (log_event (WorkerTimedOut ifc_file) (c\<lparr>dir := d1\<rparr>))
         ifc_file (stem ifc_file @ ''.frag'')"
  "path_exists d0 input_file \<Longrightarrow> mkdir_parent_ok v output \<Longrightarrow>
   node v [''node'', ''--max-old-space-size=8192'', converter_script v,
           ''--input'', input_file, ''--output'', output] timeout d0 = (TimeoutExpired, d2) \<Longrightarrow>
     \<exists>r launched. convert_ifc_file v d0 input_file output timeout = (Inr r, launched, d2)
        \<and> \<not> sc_success r \<and> sc_timeout r = Some timeout
        \<and> sc_error r = Some (''Conversion timed out after '' @ str_nat timeout @ '' seconds'')"
  by (simp_all add: worker_attempt_def convert_single_file_def convert_ifc_file_def Let_def
      sc_failure_def)

section \<open>Properties of the subprocess converter\<close>



text \<open>
  C2. The subprocess converter reports success for a child that exits with status 0
  and leaves an empty output file: \<open>convert_ifc_file\<close> returns \<open>success = True\<close> with
  \<open>file_size = 0\<close>, and the upload endpoint of \<open>backend/app.py\<close> makes the same test.
  On the same files the orchestrator's \<open>convert_single_file\<close> raises "Output file not
  created or is empty".
\<close>

theorem subprocess_converter_accepts_empty_output:
  "\<exists>r launched d'.
     convert_ifc_file ex_sc_env ex_dir ''b.ifc'' ''out.frag'' 600 = (Inr r, launched, d')
     \<and> sc_success r \<and> sc_file_size r = Some 0 \<and> st_size d' ''out.frag'' = Inr 0
     \<and> convert_ifc_success 0 d' ''out.frag''
     \<and> worker_attempt (Exited 0 [] []) d' ''out.frag''
          = Raised (PyException ''Output file not created or is empty'')"
  by (simp add: convert_ifc_file_def ex_sc_env_def ex_dir_def path_exists_def st_size_def Let_def
      update_conv' convert_ifc_success_def worker_attempt_def)

end
